theory Spec2Isabelle
  imports Complex_Main
begin

section \<open>Learning-rate schedules of \<^verbatim>\<open>trax/supervised/lr_schedules.py\<close>\<close>

text \<open>
  The module builds learning-rate schedules: \<^verbatim>\<open>MultifactorSchedule\<close> parses a formula
  string into factor names and returns a closure \<^verbatim>\<open>learning_rate(step)\<close>;
  \<^verbatim>\<open>EvalAdjustingSchedule\<close> walks the metric history backward, lowers the constant
  where the metric stalls and hands the adjusted constant to \<^verbatim>\<open>MultifactorSchedule\<close>.

  Numbers. Python's \<^verbatim>\<open>int\<close> is \<^typ>\<open>int\<close>. Python's \<^verbatim>\<open>float\<close> is modelled by
  \<^typ>\<open>real\<close>: arithmetic is exact, so rounding, overflow and the final cast to
  \<^verbatim>\<open>float32\<close> are outside the model. What is inside the model is every place where
  the source leaves the real numbers: a Python division by zero raises
  \<^verbatim>\<open>ZeroDivisionError\<close>, while the array backend returns \<^verbatim>\<open>nan\<close> for the square
  root of a negative number and \<^verbatim>\<open>inf\<close> or \<^verbatim>\<open>nan\<close> for a division by zero.
  The parameters carry the types of their defaults: the step and the step counts are
  integers, the constant, the decay factor, the margin, the rate and the metric values
  are floats.
\<close>

subsection \<open>Errors and values\<close>

text \<open>
  \<^verbatim>\<open>ValueError('Unknown factor %s.' % name)\<close> is \<open>UnknownFactor name\<close>; the two others
  are the built-in exceptions that the arithmetic and \<^verbatim>\<open>list.pop\<close> can raise.
\<close>

datatype error = UnknownFactor string | ZeroDivisionError | IndexError

text \<open>
  A value of the accumulator \<^verbatim>\<open>ret\<close>: a real number, or \<open>NonFinite\<close> for any of
  \<^verbatim>\<open>inf\<close>, \<^verbatim>\<open>-inf\<close> and \<^verbatim>\<open>nan\<close>.
\<close>

datatype pyfloat = Finite real | NonFinite

text \<open>\<^verbatim>\<open>jnp.sqrt(x)\<close> of an integer: \<^verbatim>\<open>nan\<close> below zero.\<close>

definition jnp_sqrt :: "int \<Rightarrow> pyfloat" where
  "jnp_sqrt x = (if x < 0 then NonFinite else Finite (sqrt (real_of_int x)))"

text \<open>
  \<^verbatim>\<open>ret *= x\<close>: a product with \<^verbatim>\<open>inf\<close> or \<^verbatim>\<open>nan\<close> among the operands is
  \<^verbatim>\<open>inf\<close> or \<^verbatim>\<open>nan\<close> again (\<^verbatim>\<open>inf * 0\<close> is \<^verbatim>\<open>nan\<close>).
\<close>

fun times_float :: "pyfloat \<Rightarrow> pyfloat \<Rightarrow> pyfloat" where
  "times_float (Finite a) (Finite b) = Finite (a * b)"
| "times_float _ _ = NonFinite"

text \<open>
  \<^verbatim>\<open>ret /= x\<close> on array values: no exception, a zero divisor gives \<^verbatim>\<open>inf\<close> or
  \<^verbatim>\<open>nan\<close>. The only non-finite divisor the program produces is the \<^verbatim>\<open>nan\<close> of
  \<open>jnp_sqrt\<close>, and a quotient by \<^verbatim>\<open>nan\<close> is \<^verbatim>\<open>nan\<close>.
\<close>

fun divide_float :: "pyfloat \<Rightarrow> pyfloat \<Rightarrow> pyfloat" where
  "divide_float (Finite a) (Finite b) = (if b = 0 then NonFinite else Finite (a / b))"
| "divide_float _ _ = NonFinite"

subsection \<open>Parsing the formula\<close>

text \<open>
  \<^verbatim>\<open>str.split('*')\<close>: the pieces between the stars, empty pieces kept, so the empty
  string gives one empty piece.
\<close>

fun split_star :: "string \<Rightarrow> string list" where
  "split_star [] = [[]]"
| "split_star (c # cs) =
     (if c = CHR ''*'' then [] # split_star cs
      else (case split_star cs of
              [] \<Rightarrow> [[c]]
            | w # ws \<Rightarrow> (c # w) # ws))"

text \<open>
  \<^verbatim>\<open>str.strip()\<close> removes leading and trailing whitespace. A \<^typ>\<open>char\<close> stands for a
  code point below 256; Python's whitespace there is 9 to 13, 28 to 32, 133 and 160.
\<close>

definition is_space :: "char \<Rightarrow> bool" where
  "is_space c =
     (let n = (of_char c :: nat)
      in (9 \<le> n \<and> n \<le> 13) \<or> (28 \<le> n \<and> n \<le> 32) \<or> n = 133 \<or> n = 160)"

definition strip :: "string \<Rightarrow> string" where
  "strip s = rev (dropWhile is_space (rev (dropWhile is_space s)))"

subsection \<open>MultifactorSchedule\<close>

text \<open>
  The closure \<^verbatim>\<open>learning_rate\<close> captures the parsed factor list and the five numeric
  parameters of \<^verbatim>\<open>MultifactorSchedule\<close>. The field \<open>lr_constant\<close> is the source's
  \<^verbatim>\<open>constant\<close>, a word that Isabelle reserves.
\<close>

record closure =
  factors :: "string list"
  lr_constant :: real
  warmup_steps :: int
  decay_factor :: real
  steps_per_decay :: int
  steps_per_cycle :: int

text \<open>
  The constructor: \<^verbatim>\<open>factors = [n.strip() for n in factors.split('*')]\<close>, then the
  closure is returned. The \<^verbatim>\<open>history\<close> argument is deleted on entry and has no
  counterpart here.
\<close>

definition MultifactorSchedule ::
  "string \<Rightarrow> real \<Rightarrow> int \<Rightarrow> real \<Rightarrow> int \<Rightarrow> int \<Rightarrow> closure" where
  "MultifactorSchedule fs c w d spd spc =
     \<lparr>factors = map strip (split_star fs), lr_constant = c, warmup_steps = w,
      decay_factor = d, steps_per_decay = spd, steps_per_cycle = spc\<rparr>"

text \<open>The defaults of the keyword arguments.\<close>

definition default_factors :: string where
  "default_factors = ''constant * linear_warmup * rsqrt_decay''"

definition default_schedule :: "real \<Rightarrow> closure" where
  "default_schedule c = MultifactorSchedule default_factors c 400 (1/2) 20000 100000"

text \<open>
  One round of the loop body of \<^verbatim>\<open>learning_rate\<close>: the \<^verbatim>\<open>if\<close>/\<^verbatim>\<open>elif\<close> chain
  on the factor name, in the source's order. Python's \<^verbatim>\<open>/\<close> and \<^verbatim>\<open>//\<close> on numbers
  raise \<^verbatim>\<open>ZeroDivisionError\<close> on a zero divisor, and so does a zero float raised to a
  negative integer power; \<^verbatim>\<open>//\<close> on integers is floor division, as \<open>div\<close> on
  \<^typ>\<open>int\<close>; \<^verbatim>\<open>% 1.0\<close> of a non-negative value is its fractional part.
\<close>

definition apply_factor :: "closure \<Rightarrow> int \<Rightarrow> pyfloat \<Rightarrow> string \<Rightarrow> error + pyfloat" where
  "apply_factor c step ret name =
     (if name = ''constant'' then
        Inr (times_float ret (Finite (lr_constant c)))
      else if name = ''linear_warmup'' then
        (if warmup_steps c = 0 then Inl ZeroDivisionError
         else Inr (times_float ret
                (Finite (min 1 (real_of_int step / real_of_int (warmup_steps c))))))
      else if name = ''rsqrt_decay'' then
        Inr (divide_float ret (jnp_sqrt (max step (warmup_steps c))))
      else if name = ''rsqrt_normalized_decay'' then
        Inr (divide_float (times_float ret (jnp_sqrt (warmup_steps c)))
               (jnp_sqrt (max step (warmup_steps c))))
      else if name = ''decay_every'' then
        (if steps_per_decay c = 0 then Inl ZeroDivisionError
         else if decay_factor c = 0 \<and> step div steps_per_decay c < 0
           then Inl ZeroDivisionError
         else Inr (times_float ret
                (Finite (power_int (decay_factor c) (step div steps_per_decay c)))))
      else if name = ''cosine_decay'' then
        (if steps_per_cycle c = 0 then Inl ZeroDivisionError
         else
           (let progress = max 0 (real_of_int (step - warmup_steps c)
                                   / real_of_int (steps_per_cycle c))
            in Inr (times_float ret (Finite (0.5 * (1 + cos (pi * frac progress)))))))
      else Inl (UnknownFactor name))"

text \<open>\<^verbatim>\<open>for name in factors\<close>: the accumulator runs through the names, an exception ends the call.\<close>

fun factor_loop :: "closure \<Rightarrow> int \<Rightarrow> string list \<Rightarrow> pyfloat \<Rightarrow> error + pyfloat" where
  "factor_loop c step [] ret = Inr ret"
| "factor_loop c step (name # names) ret =
     (case apply_factor c step ret name of
        Inl e \<Rightarrow> Inl e
      | Inr ret' \<Rightarrow> factor_loop c step names ret')"

text \<open>
  \<^verbatim>\<open>jnp.asarray(ret, dtype=jnp.float32)\<close>: the rounding to single precision is the
  identity on the model's exact values.
\<close>

definition asarray_float32 :: "pyfloat \<Rightarrow> pyfloat" where
  "asarray_float32 ret = ret"

text \<open>The call \<^verbatim>\<open>learning_rate(step)\<close>: \<^verbatim>\<open>ret = 1.0\<close>, the loop, the one-entry dict.\<close>

definition learning_rate :: "closure \<Rightarrow> int \<Rightarrow> error + (string \<rightharpoonup> pyfloat)" where
  "learning_rate c step =
     (case factor_loop c step (factors c) (Finite 1) of
        Inl e \<Rightarrow> Inl e
      | Inr ret \<Rightarrow> Inr [''learning_rate'' \<mapsto> asarray_float32 ret])"

subsection \<open>The heap: list objects and the History\<close>

text \<open>
  \<^verbatim>\<open>metrics.pop()\<close> mutates a list object, so lists live in a heap: an address is a
  natural number, every address holds a list of \<^verbatim>\<open>(step, value)\<close> pairs, and
  \<open>fresh\<close> is the next unused address.
\<close>

type_synonym addr = nat

type_synonym point = "int \<times> real"

record heap =
  lists :: "addr \<Rightarrow> point list"
  fresh :: addr

text \<open>A new list object holding \<open>xs\<close>.\<close>

definition alloc :: "point list \<Rightarrow> heap \<Rightarrow> addr \<times> heap" where
  "alloc xs s = (fresh s, s\<lparr>lists := (lists s)(fresh s := xs), fresh := Suc (fresh s)\<rparr>)"

text \<open>\<^verbatim>\<open>xs.pop()\<close>: removes and returns the last element, \<^verbatim>\<open>IndexError\<close> on an empty list.\<close>

definition list_pop :: "addr \<Rightarrow> heap \<Rightarrow> (error + point) \<times> heap" where
  "list_pop a s =
     (if lists s a = [] then (Inl IndexError, s)
      else (Inr (last (lists s a)), s\<lparr>lists := (lists s)(a := butlast (lists s a))\<rparr>))"

text \<open>
  A History owns one list object per mode and metric, oldest point first: it is a
  dictionary, kept as an association list, from the pair of mode and metric to the
  address of that list.
\<close>

type_synonym history = "((string \<times> string) \<times> addr) list"

text \<open>
  Modelled from the spec: the method \<^verbatim>\<open>History.get\<close>, whose class is not part of
  this module. \<^verbatim>\<open>get(mode, metric)\<close> returns the ordered sequence of that mode and
  metric, oldest first, as a list of the caller's own (a copy of the History's list),
  and the empty sequence where nothing was recorded.
\<close>

definition history_get :: "history \<Rightarrow> string \<Rightarrow> string \<Rightarrow> heap \<Rightarrow> addr \<times> heap" where
  "history_get h mode metric s =
     (case map_of h (mode, metric) of
        None \<Rightarrow> alloc [] s
      | Some a \<Rightarrow> alloc (lists s a) s)"

text \<open>The sequence that a query of the History returns in a given heap.\<close>

definition query :: "history \<Rightarrow> string \<Rightarrow> string \<Rightarrow> heap \<Rightarrow> point list" where
  "query h mode metric s = (case history_get h mode metric s of (a, s') \<Rightarrow> lists s' a)"

text \<open>The lists of a History are allocated objects.\<close>

definition history_ok :: "history \<Rightarrow> heap \<Rightarrow> bool" where
  "history_ok h s = list_all (\<lambda>(k, a). a < fresh s) h"

subsection \<open>EvalAdjustingSchedule\<close>

text \<open>
  The loop \<^verbatim>\<open>while len(metrics) > 1\<close>. Its state is the list object at address
  \<open>metrics\<close> and the locals \<^verbatim>\<open>cur\<close>, \<^verbatim>\<open>steps_without_improvement\<close> and
  \<^verbatim>\<open>adjusted\<close>; \<open>std\<close>, \<open>im\<close> and \<open>dr\<close> are the arguments \<^verbatim>\<open>steps_to_decrease\<close>,
  \<^verbatim>\<open>improvement_margin\<close> and \<^verbatim>\<open>decrease_rate\<close>. The result is the final
  \<^verbatim>\<open>adjusted\<close>, or the exception that ended the loop, and the heap as the loop left it.
  \<^verbatim>\<open>adjusted /= decrease_rate\<close> divides two Python floats and raises on zero.
\<close>

function walk ::
  "int \<Rightarrow> real \<Rightarrow> real \<Rightarrow> addr \<Rightarrow> real \<Rightarrow> int \<Rightarrow> real \<Rightarrow> heap \<Rightarrow> (error + real) \<times> heap" where
  "walk std im dr metrics cur swi adjusted s =
     (if 1 < length (lists s metrics) then
        (case list_pop metrics s of
           (Inl e, s') \<Rightarrow> (Inl e, s')
         | (Inr p, s') \<Rightarrow>
             (let prev = snd p;
                  swi1 = (if cur < prev * (1 + im) then swi + 1 else 0);
                  cur1 = (if cur < prev * (1 + im) then cur else prev)
              in if std \<le> swi1 then
                   (if dr = 0 then (Inl ZeroDivisionError, s')
                    else walk std im dr metrics prev 0 (adjusted / dr) s')
                 else walk std im dr metrics cur1 swi1 adjusted s'))
      else (Inr adjusted, s))"
  by pat_completeness auto
termination
  by (relation "measure (\<lambda>(std, im, dr, metrics, cur, swi, adjusted, s). length (lists s metrics))")
     (auto simp: list_pop_def split: if_splits)

declare walk.simps [simp del]

text \<open>
  The constructor. The returned schedule is \<^verbatim>\<open>MultifactorSchedule(history,
  constant=adjusted)\<close>, every other argument at its default.
\<close>

definition EvalAdjustingSchedule ::
  "history \<Rightarrow> real \<Rightarrow> int \<Rightarrow> real \<Rightarrow> real \<Rightarrow> string \<Rightarrow> string \<Rightarrow> heap
     \<Rightarrow> (error + closure) \<times> heap" where
  "EvalAdjustingSchedule h c std im dr history_mode metric s =
     (case history_get h history_mode metric s of
        (metrics, s1) \<Rightarrow>
          (let adjusted = c
           in if length (lists s1 metrics) < 2 then (Inr (default_schedule adjusted), s1)
              else
                (case list_pop metrics s1 of
                   (Inl e, s2) \<Rightarrow> (Inl e, s2)
                 | (Inr p, s2) \<Rightarrow>
                     (case walk std im dr metrics (snd p) 0 adjusted s2 of
                        (Inl e, s3) \<Rightarrow> (Inl e, s3)
                      | (Inr adjusted', s3) \<Rightarrow> (Inr (default_schedule adjusted'), s3)))))"

text \<open>The defaults of \<^verbatim>\<open>EvalAdjustingSchedule\<close>'s own keyword arguments.\<close>

definition default_improvement_margin :: real where
  "default_improvement_margin = 1 / 1000"

text \<open>A History with one recorded series, and a heap that holds its list at address 0.\<close>

definition single_history :: history where
  "single_history = [((''eval'', ''metrics/accuracy''), 0)]"

definition single_heap :: "point list \<Rightarrow> heap" where
  "single_heap xs = \<lparr>lists = (\<lambda>a. if a = 0 then xs else []), fresh = 1\<rparr>"

subsection \<open>Calling a schedule\<close>



subsection \<open>Notions of the specification\<close>



text \<open>Approximate equality of two values, to a thousandth.\<close>

definition approx_eq :: "real \<Rightarrow> real \<Rightarrow> bool" where
  "approx_eq x y = (\<bar>x - y\<bar> \<le> 1 / 1000)"

section \<open>Properties of the factor evaluator\<close>

subsection \<open>Parsing\<close>

lemma parse_default:
  "map strip (split_star default_factors) = [''constant'', ''linear_warmup'', ''rsqrt_decay'']"
  by (simp add: strip_def is_space_def default_factors_def)


lemma MultifactorSchedule_fields:
  "lr_constant (MultifactorSchedule fs c w d spd spc) = c"
  "warmup_steps (MultifactorSchedule fs c w d spd spc) = w"
  "decay_factor (MultifactorSchedule fs c w d spd spc) = d"
  "steps_per_decay (MultifactorSchedule fs c w d spd spc) = spd"
  "steps_per_cycle (MultifactorSchedule fs c w d spd spc) = spc"
  by (simp_all add: MultifactorSchedule_def)

text \<open>The schedule of the default formula, as a closed expression in the step.\<close>

lemma default_schedule_rate:
  "learning_rate (default_schedule c) step =
     Inr [''learning_rate'' \<mapsto>
           Finite (c * min 1 (real_of_int step / 400) / sqrt (real_of_int (max step 400)))]"
  by (simp add: learning_rate_def default_schedule_def MultifactorSchedule_def parse_default
        apply_factor_def jnp_sqrt_def asarray_float32_def max_def)

subsection \<open>Recognised and unrecognised names\<close>








subsection \<open>Repeated calls\<close>


section \<open>Properties of the backward walk\<close>

subsection \<open>One round of the loop\<close>

text \<open>
  The loop stops on a list of at most one point, and otherwise removes the last point
  and goes on with the rest.
\<close>

lemma walk_short:
  "length (lists s m) \<le> 1 \<Longrightarrow> walk std im dr m cur swi adj s = (Inr adj, s)"
  by (subst walk.simps) simp

lemma walk_snoc:
  assumes "lists s m = xs @ [x]" and "xs \<noteq> []"
  shows "walk std im dr m cur swi adj s =
    (let prev = snd x;
         s' = s\<lparr>lists := (lists s)(m := xs)\<rparr>;
         swi1 = (if cur < prev * (1 + im) then swi + 1 else 0);
         cur1 = (if cur < prev * (1 + im) then cur else prev)
     in if std \<le> swi1 then
          (if dr = 0 then (Inl ZeroDivisionError, s')
           else walk std im dr m prev 0 (adj / dr) s')
        else walk std im dr m cur1 swi1 adj s')"
proof -
  from assms have "1 < length (lists s m)" by (cases xs) simp_all
  moreover from assms have "list_pop m s = (Inr x, s\<lparr>lists := (lists s)(m := xs)\<rparr>)"
    by (simp add: list_pop_def)
  ultimately show ?thesis by (subst walk.simps) (simp add: Let_def)
qed

lemma walk_frame:
  "lists s m = xs \<Longrightarrow>
   fresh (snd (walk std im dr m cur swi adj s)) = fresh s
   \<and> (\<forall>b. b \<noteq> m \<longrightarrow> lists (snd (walk std im dr m cur swi adj s)) b = lists s b)"
proof (induction xs arbitrary: s cur swi adj rule: rev_induct)
  case Nil
  then show ?case by (simp add: walk_short)
next
  case (snoc x xs)
  show ?case
  proof (cases "xs = []")
    case True
    with snoc.prems show ?thesis by (simp add: walk_short)
  next
    case False
    let ?s' = "s\<lparr>lists := (lists s)(m := xs)\<rparr>"
    have l: "lists ?s' m = xs" by simp
    note ih = snoc.IH [OF l]
    show ?thesis
      using ih by (simp add: walk_snoc [OF snoc.prems False] Let_def)
  qed
qed


text \<open>The result of the loop does not depend on the oldest point, nor on the address.\<close>

lemma walk_oldest:
  "lists s m = p # rest \<Longrightarrow> lists s' m' = q # rest \<Longrightarrow>
   fst (walk std im dr m cur swi adj s) = fst (walk std im dr m' cur swi adj s')"
proof (induction rest arbitrary: s s' cur swi adj rule: rev_induct)
  case Nil
  then show ?case by (simp add: walk_short)
next
  case (snoc x xs)
  let ?t = "s\<lparr>lists := (lists s)(m := p # xs)\<rparr>"
  let ?t' = "s'\<lparr>lists := (lists s')(m' := q # xs)\<rparr>"
  have a: "lists s m = (p # xs) @ [x]" "p # xs \<noteq> []" using snoc.prems by simp_all
  have b: "lists s' m' = (q # xs) @ [x]" "q # xs \<noteq> []" using snoc.prems by simp_all
  have l: "lists ?t m = p # xs" "lists ?t' m' = q # xs" by simp_all
  note ih = snoc.IH [OF l]
  show ?case
    by (simp add: walk_snoc [OF a] walk_snoc [OF b] Let_def ih)
qed

text \<open>A loop that ends without an exception leaves exactly the oldest point in its list.\<close>

lemma walk_consumes:
  "lists s m = x # xs \<Longrightarrow> fst (walk std im dr m cur swi adj s) = Inr r \<Longrightarrow>
   lists (snd (walk std im dr m cur swi adj s)) m = [x]"
proof (induction xs arbitrary: s cur swi adj rule: rev_induct)
  case Nil
  then show ?case by (simp add: walk_short)
next
  case (snoc y ys)
  let ?t = "s\<lparr>lists := (lists s)(m := x # ys)\<rparr>"
  let ?swi1 = "if cur < snd y * (1 + im) then swi + 1 else 0"
  let ?cur1 = "if cur < snd y * (1 + im) then cur else snd y"
  have a: "lists s m = (x # ys) @ [y]" "x # ys \<noteq> []" using snoc.prems by simp_all
  have l: "lists ?t m = x # ys" by simp
  note ih = snoc.IH [OF l]
  show ?case
  proof (cases "std \<le> ?swi1")
    case True
    with snoc.prems(2) have dr: "dr \<noteq> 0"
      by (auto simp: walk_snoc [OF a] Let_def)
    with True snoc.prems(2)
    have "fst (walk std im dr m (snd y) 0 (adj / dr) ?t) = Inr r"
      by (simp add: walk_snoc [OF a] Let_def)
    from ih [OF this] True dr show ?thesis
      by (simp add: walk_snoc [OF a] Let_def)
  next
    case False
    with snoc.prems(2)
    have "fst (walk std im dr m ?cur1 ?swi1 adj ?t) = Inr r"
      by (simp add: walk_snoc [OF a] Let_def)
    from ih [OF this] False show ?thesis
      by (simp add: walk_snoc [OF a] Let_def)
  qed
qed

subsection \<open>The constructor\<close>

lemma query_eq:
  "query h mode metric s =
     (case map_of h (mode, metric) of None \<Rightarrow> [] | Some a \<Rightarrow> lists s a)"
  by (simp add: query_def history_get_def alloc_def split: option.split)

lemma history_get_eq:
  "history_get h mode metric s = alloc (query h mode metric s) s"
  by (simp add: query_eq history_get_def split: option.split)

lemma EvalAdjustingSchedule_short:
  assumes "length (query h mode metric s) < 2"
  shows "EvalAdjustingSchedule h c std im dr mode metric s
         = (Inr (default_schedule c), snd (alloc (query h mode metric s) s))"
  using assms by (simp add: EvalAdjustingSchedule_def history_get_eq alloc_def)

lemma EvalAdjustingSchedule_long:
  assumes "query h mode metric s = xs @ [x]" and "xs \<noteq> []"
  shows "EvalAdjustingSchedule h c std im dr mode metric s
         = (case walk std im dr (fresh s) (snd x) 0 c
                   (s\<lparr>fresh := Suc (fresh s), lists := (lists s)(fresh s := xs)\<rparr>) of
              (Inl e, s3) \<Rightarrow> (Inl e, s3)
            | (Inr adjusted', s3) \<Rightarrow> (Inr (default_schedule adjusted'), s3))"
proof -
  from assms have "\<not> length (xs @ [x]) < 2" by (cases xs) simp_all
  with assms show ?thesis
    by (simp add: EvalAdjustingSchedule_def history_get_eq alloc_def list_pop_def)
qed

lemma query_single: "query single_history ''eval'' ''metrics/accuracy'' (single_heap xs) = xs"
  by (simp add: query_eq single_history_def single_heap_def)

lemma history_ok_single: "history_ok single_history (single_heap xs)"
  by (simp add: history_ok_def single_history_def single_heap_def)

lemma history_ok_lookup:
  assumes "history_ok h s" and "map_of h k = Some a"
  shows "a < fresh s"
proof -
  from assms(2) have "(k, a) \<in> set h" by (rule map_of_SomeD)
  with assms(1) show ?thesis by (auto simp: history_ok_def list_all_iff)
qed

lemma EvalAdjustingSchedule_oldest:
  assumes "query h mode metric s = p # rest" and "query h' mode' metric' s' = q # rest"
  shows "fst (EvalAdjustingSchedule h c std im dr mode metric s)
         = fst (EvalAdjustingSchedule h' c std im dr mode' metric' s')"
proof (cases rest rule: rev_cases)
  case Nil
  with assms show ?thesis by (simp add: EvalAdjustingSchedule_short)
next
  case (snoc ys y)
  let ?t = "s\<lparr>fresh := Suc (fresh s), lists := (lists s)(fresh s := p # ys)\<rparr>"
  let ?t' = "s'\<lparr>fresh := Suc (fresh s'), lists := (lists s')(fresh s' := q # ys)\<rparr>"
  have a: "query h mode metric s = (p # ys) @ [y]" "p # ys \<noteq> []"
    using assms(1) snoc by simp_all
  have b: "query h' mode' metric' s' = (q # ys) @ [y]" "q # ys \<noteq> []"
    using assms(2) snoc by simp_all
  have l: "lists ?t (fresh s) = p # ys" "lists ?t' (fresh s') = q # ys" by simp_all
  have w: "fst (walk std im dr (fresh s) (snd y) 0 c ?t)
           = fst (walk std im dr (fresh s') (snd y) 0 c ?t')"
    by (rule walk_oldest [OF l])
  show ?thesis
    using w
    by (cases "walk std im dr (fresh s) (snd y) 0 c ?t";
        cases "walk std im dr (fresh s') (snd y) 0 c ?t'")
       (auto simp: EvalAdjustingSchedule_long [OF a] EvalAdjustingSchedule_long [OF b]
             split: sum.splits)
qed

lemma EvalAdjustingSchedule_frame:
  assumes "a < fresh s"
  shows "lists (snd (EvalAdjustingSchedule h c std im dr mode metric s)) a = lists s a"
proof (cases "length (query h mode metric s) < 2")
  case True
  with assms show ?thesis by (simp add: EvalAdjustingSchedule_short alloc_def)
next
  case False
  then obtain xs x where q: "query h mode metric s = xs @ [x]" and ne: "xs \<noteq> []"
    by (cases "query h mode metric s" rule: rev_cases) (auto simp: not_less)
  let ?s2 = "s\<lparr>fresh := Suc (fresh s), lists := (lists s)(fresh s := xs)\<rparr>"
  have "lists ?s2 (fresh s) = xs" by simp
  from walk_frame [OF this, of std im dr "snd x" 0 c] assms
  have "lists (snd (walk std im dr (fresh s) (snd x) 0 c ?s2)) a = lists s a" by simp
  then show ?thesis
    by (cases "walk std im dr (fresh s) (snd x) 0 c ?s2")
       (auto simp: EvalAdjustingSchedule_long [OF q ne] split: sum.splits)
qed

lemma EvalAdjustingSchedule_consumes:
  assumes "query h mode metric s = x # xs" and "xs \<noteq> []"
    and "fst (EvalAdjustingSchedule h c std im dr mode metric s) = Inr sched"
  shows "lists (snd (EvalAdjustingSchedule h c std im dr mode metric s)) (fresh s) = [x]"
proof -
  from assms(2) obtain ys y where xs: "xs = ys @ [y]" by (cases xs rule: rev_cases) auto
  let ?t = "s\<lparr>fresh := Suc (fresh s), lists := (lists s)(fresh s := x # ys)\<rparr>"
  have a: "query h mode metric s = (x # ys) @ [y]" "x # ys \<noteq> []"
    using assms(1) xs by simp_all
  have l: "lists ?t (fresh s) = x # ys" by simp
  obtain r t' where w: "walk std im dr (fresh s) (snd y) 0 c ?t = (r, t')"
    by (cases "walk std im dr (fresh s) (snd y) 0 c ?t")
  with assms(3) obtain adj where r: "r = Inr adj"
    by (cases r) (simp_all add: EvalAdjustingSchedule_long [OF a])
  from walk_consumes [OF l, of std im dr "snd y" 0 c adj] w r
  have "lists t' (fresh s) = [x]" by simp
  with w r show ?thesis by (simp add: EvalAdjustingSchedule_long [OF a])
qed

text \<open>
  Were the loop run on the History's own list, the History would be left with its
  oldest point only: the copy that \<open>history_get\<close> makes is what keeps it intact.
\<close>

lemma walk_on_alias_mutates:
  assumes "map_of h (mode, metric) = Some a" and "lists s a = x # xs"
    and "fst (walk std im dr a cur swi adj s) = Inr r"
  shows "query h mode metric (snd (walk std im dr a cur swi adj s)) = [x]"
  using assms(1) walk_consumes [OF assms(2,3)] by (simp add: query_eq)


subsection \<open>Worked traces\<close>

text \<open>
  The trace of the loop on three stalled points, the state after the first
  \<^verbatim>\<open>pop\<close> of a history of four: the first comparison counts one stalled step, the
  second reaches \<^verbatim>\<open>steps_to_decrease = 2\<close>, halves the constant and resets the
  counter, and the loop ends with the oldest point left in the list.
\<close>

lemma stalled_trace:
  "lists s m = [(t1, 1/2), (t2, 1/2), (t3, 1/2)] \<Longrightarrow>
     walk 2 default_improvement_margin 2 m (1/2) 0 1 s
     = walk 2 default_improvement_margin 2 m (1/2) 1 1
         (s\<lparr>lists := (lists s)(m := [(t1, 1/2), (t2, 1/2)])\<rparr>)"
  "lists s m = [(t1, 1/2), (t2, 1/2)] \<Longrightarrow>
     walk 2 default_improvement_margin 2 m (1/2) 1 1 s
     = walk 2 default_improvement_margin 2 m (1/2) 0 (1/2)
         (s\<lparr>lists := (lists s)(m := [(t1, 1/2)])\<rparr>)"
  "lists s m = [(t1, 1/2)] \<Longrightarrow>
     walk 2 default_improvement_margin 2 m (1/2) 0 (1/2) s = (Inr (1/2), s)"
proof -
  show "walk 2 default_improvement_margin 2 m (1/2) 0 1 s
     = walk 2 default_improvement_margin 2 m (1/2) 1 1
         (s\<lparr>lists := (lists s)(m := [(t1, 1/2), (t2, 1/2)])\<rparr>)"
    if "lists s m = [(t1, 1/2), (t2, 1/2), (t3, 1/2)]"
  proof -
    from that have a: "lists s m = [(t1, 1/2), (t2, 1/2)] @ [(t3, 1/2)]" by simp
    show ?thesis
      by (simp add: walk_snoc [OF a] Let_def default_improvement_margin_def)
  qed
  show "walk 2 default_improvement_margin 2 m (1/2) 1 1 s
     = walk 2 default_improvement_margin 2 m (1/2) 0 (1/2)
         (s\<lparr>lists := (lists s)(m := [(t1, 1/2)])\<rparr>)"
    if "lists s m = [(t1, 1/2), (t2, 1/2)]"
  proof -
    from that have a: "lists s m = [(t1, 1/2)] @ [(t2, 1/2)]" by simp
    show ?thesis
      by (simp add: walk_snoc [OF a] Let_def default_improvement_margin_def)
  qed
  show "walk 2 default_improvement_margin 2 m (1/2) 0 (1/2) s = (Inr (1/2), s)"
    if "lists s m = [(t1, 1/2)]"
    using that by (simp add: walk_short)
qed

lemma four_stalled:
  assumes "query h mode metric s = [(t1, 1/2), (t2, 1/2), (t3, 1/2), (t4, 1/2)]"
  shows "EvalAdjustingSchedule h 1 2 default_improvement_margin 2 mode metric s
         = (Inr (default_schedule (1/2)),
            s\<lparr>fresh := Suc (fresh s), lists := (lists s)(fresh s := [(t1, 1/2)])\<rparr>)"
proof -
  have q: "query h mode metric s = [(t1, 1/2), (t2, 1/2), (t3, 1/2)] @ [(t4, 1/2)]"
    "[(t1, 1/2), (t2, 1/2), (t3, 1/2)] \<noteq> []"
    using assms by simp_all
  show ?thesis
    by (simp add: EvalAdjustingSchedule_long [OF q] stalled_trace)
qed

text \<open>With a zero decrease rate the first decrease raises.\<close>

lemma zero_decrease_rate_raises:
  "fst (EvalAdjustingSchedule single_history 1 1 default_improvement_margin 0
          ''eval'' ''metrics/accuracy'' (single_heap [(1, 1/2), (2, 1/2), (3, 1/2)]))
   = Inl ZeroDivisionError"
proof -
  have q: "query single_history ''eval'' ''metrics/accuracy''
             (single_heap [(1, 1/2), (2, 1/2), (3, 1/2)]) = [(1, 1/2), (2, 1/2)] @ [(3, 1/2)]"
    "[(1, 1/2), (2, 1/2)] \<noteq> ([] :: point list)"
    by (simp_all add: query_single)
  show ?thesis
    by (simp add: EvalAdjustingSchedule_long [OF q] walk.simps list_pop_def Let_def
          default_improvement_margin_def)
qed

text \<open>A margin of zero does not count a tie as a stalled step.\<close>

lemma zero_margin_tie_improves:
  assumes "query h mode metric s = [(t1, 1/2), (t2, 1/2), (t3, 1/2), (t4, 1/2)]"
  shows "fst (EvalAdjustingSchedule h 1 2 0 2 mode metric s) = Inr (default_schedule 1)"
proof -
  have q: "query h mode metric s = [(t1, 1/2), (t2, 1/2), (t3, 1/2)] @ [(t4, 1/2)]"
    "[(t1, 1/2), (t2, 1/2), (t3, 1/2)] \<noteq> []"
    using assms by simp_all
  show ?thesis
    by (simp add: EvalAdjustingSchedule_long [OF q] walk.simps list_pop_def Let_def)
qed

subsection \<open>The adjusted constant\<close>




section \<open>The claims\<close>




text \<open>
  Claim C2. For a history whose sequence under the mode and metric is four points of
  value 0.5, with \<^verbatim>\<open>steps_to_decrease = 2\<close>, \<^verbatim>\<open>decrease_rate = 2.0\<close>,
  \<^verbatim>\<open>constant = 1.0\<close> and the default margin, the schedule returned is the default
  formula with the constant 0.5: the two comparisons of the walk are both stalled, the
  second triggers the one decrease and resets the counter (\<open>stalled_trace\<close>), and the
  walk ends with the oldest point left in its list, so that no second decrease
  follows.
\<close>

theorem four_stalled_points_halve:
  assumes "query h mode metric s = [(t1, 1/2), (t2, 1/2), (t3, 1/2), (t4, 1/2)]"
  shows "fst (EvalAdjustingSchedule h 1 2 default_improvement_margin 2 mode metric s)
           = Inr (MultifactorSchedule default_factors (1/2) 400 (1/2) 20000 100000)
         \<and> lists (snd (EvalAdjustingSchedule h 1 2 default_improvement_margin 2 mode metric s))
             (fresh s) = [(t1, 1/2)]"
  by (simp add: four_stalled [OF assms] default_schedule_def)

theorem four_stalled_points_halve_witness:
  "query single_history ''eval'' ''metrics/accuracy''
     (single_heap [(100, 1/2), (200, 1/2), (300, 1/2), (400, 1/2)])
     = [(100, 1/2), (200, 1/2), (300, 1/2), (400, 1/2)]
   \<and> fst (EvalAdjustingSchedule single_history 1 2 default_improvement_margin 2
            ''eval'' ''metrics/accuracy''
            (single_heap [(100, 1/2), (200, 1/2), (300, 1/2), (400, 1/2)]))
       = Inr (MultifactorSchedule default_factors (1/2) 400 (1/2) 20000 100000)"
  using four_stalled_points_halve [OF query_single]
  by (simp add: query_single)

text \<open>
  Claim C3, as amended. With the formula \<^verbatim>\<open>cosine_decay\<close>, 100000 steps per cycle
  and no warm-up, the multiplier is 1 at step 0, one half at step 50000 (the half
  cycle) and 1 again at step 100000 (the full cycle); and for every non-zero number of
  steps per cycle it is \<open>0.5 * (1 + cos (pi * (progress mod 1)))\<close> with \<open>progress\<close> the
  larger of 0 and \<open>(step - warmup_steps) / steps_per_cycle\<close>.
\<close>

theorem cosine_decay_cycle:
  "learning_rate (MultifactorSchedule ''cosine_decay'' c 0 d spd 100000) 0
     = Inr [''learning_rate'' \<mapsto> Finite 1]
   \<and> learning_rate (MultifactorSchedule ''cosine_decay'' c 0 d spd 100000) 50000
     = Inr [''learning_rate'' \<mapsto> Finite (1/2)]
   \<and> learning_rate (MultifactorSchedule ''cosine_decay'' c 0 d spd 100000) 100000
     = Inr [''learning_rate'' \<mapsto> Finite 1]
   \<and> (spc \<noteq> 0 \<longrightarrow>
        learning_rate (MultifactorSchedule ''cosine_decay'' c w d spd spc) step
        = Inr [''learning_rate'' \<mapsto>
                Finite (0.5 * (1 + cos (pi * frac (max 0 (real_of_int (step - w)
                                                          / real_of_int spc)))))])"
proof -
  have toks: "factors (MultifactorSchedule ''cosine_decay'' c w d spd spc) = [''cosine_decay'']"
    for w spc
    by (simp add: MultifactorSchedule_def strip_def is_space_def)
  have g: "learning_rate (MultifactorSchedule ''cosine_decay'' c w d spd spc) step
        = Inr [''learning_rate'' \<mapsto>
                Finite (0.5 * (1 + cos (pi * frac (max 0 (real_of_int (step - w)
                                                          / real_of_int spc)))))]"
    if "spc \<noteq> 0" for w spc step
    using that
    by (simp add: learning_rate_def toks MultifactorSchedule_fields apply_factor_def
          asarray_float32_def Let_def)
  have "learning_rate (MultifactorSchedule ''cosine_decay'' c 0 d spd 100000) 0
     = Inr [''learning_rate'' \<mapsto> Finite 1]"
    by (simp add: g)
  moreover have "learning_rate (MultifactorSchedule ''cosine_decay'' c 0 d spd 100000) 50000
     = Inr [''learning_rate'' \<mapsto> Finite (1/2)]"
    by (simp add: g frac_eq)
  moreover have "learning_rate (MultifactorSchedule ''cosine_decay'' c 0 d spd 100000) 100000
     = Inr [''learning_rate'' \<mapsto> Finite 1]"
    by (simp add: g)
  ultimately show ?thesis using g by blast
qed

theorem cosine_decay_cycle_witness:
  "(100000::int) \<noteq> 0
   \<and> learning_rate (MultifactorSchedule ''cosine_decay'' (1/10) 0 (1/2) 20000 100000) 150000
     = Inr [''learning_rate'' \<mapsto> Finite (1/2)]"
proof -
  have "frac (3 / 2 :: real) = 1 / 2" by (rule frac_unique_iff [THEN iffD2]) simp
  with cosine_decay_cycle [of "1/10" "1/2" 20000 100000 0 150000]
  show ?thesis by simp
qed

theorem cosine_half_cycle_counterexample:
  "learning_rate (MultifactorSchedule ''cosine_decay'' (1/10) 0 (1/2) 20000 100000) 50000
     = Inr [''learning_rate'' \<mapsto> Finite (1/2)]
   \<and> \<not> approx_eq (1/2) 0"
  by (simp add: learning_rate_def MultifactorSchedule_def strip_def is_space_def
        apply_factor_def asarray_float32_def frac_eq approx_eq_def)

text \<open>
  Claim C4. For every history whose sequence under the mode and metric has fewer than
  two points, the schedule returned is \<open>MultifactorSchedule\<close> with the default formula,
  the constant as given and the default parameters, so at every step it yields the
  learning rate of that \<open>MultifactorSchedule\<close>.
\<close>

theorem short_history_unadjusted:
  assumes "length (query h mode metric s) < 2"
  shows "\<exists>sched. fst (EvalAdjustingSchedule h c std im dr mode metric s) = Inr sched
           \<and> sched = MultifactorSchedule default_factors c 400 (1/2) 20000 100000
           \<and> (\<forall>step. learning_rate sched step
                 = learning_rate (MultifactorSchedule default_factors c 400 (1/2) 20000 100000) step)"
  using assms by (simp add: EvalAdjustingSchedule_short default_schedule_def)

theorem short_history_unadjusted_witness:
  "length (query single_history ''eval'' ''metrics/accuracy'' (single_heap [(100, 1/2)])) < 2
   \<and> fst (EvalAdjustingSchedule single_history (1/10) 20 default_improvement_margin (3/2)
            ''eval'' ''metrics/accuracy'' (single_heap [(100, 1/2)]))
       = Inr (MultifactorSchedule default_factors (1/10) 400 (1/2) 20000 100000)"
proof -
  have l: "length (query single_history ''eval'' ''metrics/accuracy'' (single_heap [(100, 1/2)])) < 2"
    by (simp add: query_single)
  from short_history_unadjusted [OF l, of "1/10" 20 default_improvement_margin "3/2"] l
  show ?thesis by simp
qed

text \<open>
  Claim C6. With \<^verbatim>\<open>History.get\<close> returning a list of the caller's own, the walk
  consumes that list only: after the constructor has returned or raised, every list
  object that existed before is unchanged, so a query of the History, for any mode and
  metric, yields the same sequence as before the call; and where the constructor
  returns on a sequence of two or more points, its own list, at a new address, is left
  with the oldest point alone.
\<close>

theorem history_not_mutated:
  assumes "history_ok h s"
  shows "query h mode' metric' (snd (EvalAdjustingSchedule h c std im dr mode metric s))
           = query h mode' metric' s
         \<and> (\<forall>a < fresh s.
               lists (snd (EvalAdjustingSchedule h c std im dr mode metric s)) a = lists s a)
         \<and> (2 \<le> length (query h mode metric s)
              \<and> fst (EvalAdjustingSchedule h c std im dr mode metric s) = Inr sched
            \<longrightarrow> lists (snd (EvalAdjustingSchedule h c std im dr mode metric s)) (fresh s)
                  = [hd (query h mode metric s)])"
proof -
  have frame: "lists (snd (EvalAdjustingSchedule h c std im dr mode metric s)) a = lists s a"
    if "a < fresh s" for a
    using that by (rule EvalAdjustingSchedule_frame)
  have "query h mode' metric' (snd (EvalAdjustingSchedule h c std im dr mode metric s))
           = query h mode' metric' s"
  proof (cases "map_of h (mode', metric')")
    case None
    then show ?thesis by (simp add: query_eq)
  next
    case (Some a)
    with assms have "a < fresh s" by (rule history_ok_lookup)
    with Some show ?thesis by (simp add: query_eq frame)
  qed
  moreover have "lists (snd (EvalAdjustingSchedule h c std im dr mode metric s)) (fresh s)
                  = [hd (query h mode metric s)]"
    if "2 \<le> length (query h mode metric s)"
      and r: "fst (EvalAdjustingSchedule h c std im dr mode metric s) = Inr sched"
  proof -
    from that(1) obtain x xs where q: "query h mode metric s = x # xs" and ne: "xs \<noteq> []"
      by (cases "query h mode metric s") (auto simp: Suc_le_eq)
    from EvalAdjustingSchedule_consumes [OF q ne r] q show ?thesis by simp
  qed
  ultimately show ?thesis using frame by blast
qed

theorem history_not_mutated_witness:
  "history_ok single_history (single_heap [(100, 1/2), (200, 1/2), (300, 1/2), (400, 1/2)])
   \<and> query single_history ''eval'' ''metrics/accuracy''
       (snd (EvalAdjustingSchedule single_history 1 2 default_improvement_margin 2
              ''eval'' ''metrics/accuracy''
              (single_heap [(100, 1/2), (200, 1/2), (300, 1/2), (400, 1/2)])))
     = [(100, 1/2), (200, 1/2), (300, 1/2), (400, 1/2)]
   \<and> lists (snd (EvalAdjustingSchedule single_history 1 2 default_improvement_margin 2
              ''eval'' ''metrics/accuracy''
              (single_heap [(100, 1/2), (200, 1/2), (300, 1/2), (400, 1/2)]))) 1
     = [(100, 1/2)]"
proof -
  let ?s = "single_heap [(100, 1/2), (200, 1/2), (300, 1/2), (400, 1/2)]"
  have ok: "history_ok single_history ?s" by (rule history_ok_single)
  have r: "fst (EvalAdjustingSchedule single_history 1 2 default_improvement_margin 2
              ''eval'' ''metrics/accuracy'' ?s) = Inr (default_schedule (1/2))"
    by (simp add: four_stalled [OF query_single])
  have f: "fresh ?s = 1" by (simp add: single_heap_def)
  from history_not_mutated [OF ok, of "''eval''" "''metrics/accuracy''" 1 2
      default_improvement_margin 2 "''eval''" "''metrics/accuracy''" "default_schedule (1/2)"]
    ok r f
  show ?thesis by (simp add: query_single)
qed

text \<open>
  Claim C7. With the formula \<^verbatim>\<open>linear_warmup\<close> and a non-zero \<^verbatim>\<open>warmup_steps\<close> the
  multiplier is \<open>min 1 (step / warmup_steps)\<close>. For a positive \<^verbatim>\<open>warmup_steps\<close> this
  is the line \<open>step / warmup_steps\<close> from 0 to 1 over the steps 0 to \<^verbatim>\<open>warmup_steps\<close>
  and 1 from there on. With 400 warm-up steps it is 0 at step 0, 1 at step 400 and 1
  at step 800.
\<close>

theorem linear_warmup_ramp:
  "(w \<noteq> 0 \<longrightarrow>
      learning_rate (MultifactorSchedule ''linear_warmup'' c w d spd spc) step
      = Inr [''learning_rate'' \<mapsto> Finite (min 1 (real_of_int step / real_of_int w))])
   \<and> (0 < w \<and> 0 \<le> step \<and> step \<le> w \<longrightarrow>
        learning_rate (MultifactorSchedule ''linear_warmup'' c w d spd spc) step
        = Inr [''learning_rate'' \<mapsto> Finite (real_of_int step / real_of_int w)]
        \<and> 0 \<le> real_of_int step / real_of_int w \<and> real_of_int step / real_of_int w \<le> 1)
   \<and> (0 < w \<and> w \<le> step \<longrightarrow>
        learning_rate (MultifactorSchedule ''linear_warmup'' c w d spd spc) step
        = Inr [''learning_rate'' \<mapsto> Finite 1])
   \<and> learning_rate (MultifactorSchedule ''linear_warmup'' c 400 d spd spc) 0
       = Inr [''learning_rate'' \<mapsto> Finite 0]
   \<and> learning_rate (MultifactorSchedule ''linear_warmup'' c 400 d spd spc) 400
       = Inr [''learning_rate'' \<mapsto> Finite 1]
   \<and> learning_rate (MultifactorSchedule ''linear_warmup'' c 400 d spd spc) 800
       = Inr [''learning_rate'' \<mapsto> Finite 1]"
proof -
  have toks: "factors (MultifactorSchedule ''linear_warmup'' c w d spd spc) = [''linear_warmup'']"
    for w
    by (simp add: MultifactorSchedule_def strip_def is_space_def)
  have g: "learning_rate (MultifactorSchedule ''linear_warmup'' c w d spd spc) step
      = Inr [''learning_rate'' \<mapsto> Finite (min 1 (real_of_int step / real_of_int w))]"
    if "w \<noteq> 0" for w step
    using that
    by (simp add: learning_rate_def toks MultifactorSchedule_fields apply_factor_def
          asarray_float32_def)
  have ramp: "learning_rate (MultifactorSchedule ''linear_warmup'' c w d spd spc) step
        = Inr [''learning_rate'' \<mapsto> Finite (real_of_int step / real_of_int w)]
        \<and> 0 \<le> real_of_int step / real_of_int w \<and> real_of_int step / real_of_int w \<le> 1"
    if "0 < w \<and> 0 \<le> step \<and> step \<le> w"
  proof -
    from that have le: "real_of_int step / real_of_int w \<le> 1" by simp
    from that have ge: "0 \<le> real_of_int step / real_of_int w" by simp
    from le have "min 1 (real_of_int step / real_of_int w) = real_of_int step / real_of_int w"
      by (rule min_absorb2)
    moreover from that have "w \<noteq> 0" by simp
    ultimately show ?thesis using le ge by (simp add: g)
  qed
  have clamp: "learning_rate (MultifactorSchedule ''linear_warmup'' c w d spd spc) step
        = Inr [''learning_rate'' \<mapsto> Finite 1]"
    if "0 < w \<and> w \<le> step"
  proof -
    from that have "1 \<le> real_of_int step / real_of_int w" by simp
    then have "min 1 (real_of_int step / real_of_int w) = 1"
      by (rule min_absorb1)
    moreover from that have "w \<noteq> 0" by simp
    ultimately show ?thesis by (simp add: g)
  qed
  have "learning_rate (MultifactorSchedule ''linear_warmup'' c 400 d spd spc) 0
       = Inr [''learning_rate'' \<mapsto> Finite 0]"
    by (simp add: g)
  moreover have "learning_rate (MultifactorSchedule ''linear_warmup'' c 400 d spd spc) 400
       = Inr [''learning_rate'' \<mapsto> Finite 1]"
    by (simp add: g)
  moreover have "learning_rate (MultifactorSchedule ''linear_warmup'' c 400 d spd spc) 800
       = Inr [''learning_rate'' \<mapsto> Finite 1]"
    by (simp add: g)
  ultimately show ?thesis using g ramp clamp by blast
qed

theorem linear_warmup_ramp_witness:
  "(400::int) \<noteq> 0 \<and> (0::int) < 400 \<and> (0::int) \<le> 100 \<and> (100::int) \<le> 400
   \<and> learning_rate (MultifactorSchedule ''linear_warmup'' (1/10) 400 (1/2) 20000 100000) 100
       = Inr [''learning_rate'' \<mapsto> Finite (1/4)]
   \<and> (400::int) \<le> 1000
   \<and> learning_rate (MultifactorSchedule ''linear_warmup'' (1/10) 400 (1/2) 20000 100000) 1000
       = Inr [''learning_rate'' \<mapsto> Finite 1]"
  using linear_warmup_ramp [of 400 "1/10" "1/2" 20000 100000 100]
        linear_warmup_ramp [of 400 "1/10" "1/2" 20000 100000 1000]
  by simp


text \<open>
  Claim C9. The result of the constructor does not depend on the oldest point of the
  sequence: two histories whose sequences differ in the oldest point only give the same
  result, whatever the parameters. A sequence of exactly two points gives the default
  schedule with the constant as given, whatever the two values, the margin, the number
  of steps to decrease and the rate are, which is the result for a sequence of fewer
  than two points.
\<close>

theorem oldest_point_not_compared:
  "(query h mode metric s = p # rest \<and> query h' mode' metric' s' = q # rest \<longrightarrow>
      fst (EvalAdjustingSchedule h c std im dr mode metric s)
      = fst (EvalAdjustingSchedule h' c std im dr mode' metric' s'))
   \<and> (query h mode metric s = [p, q] \<longrightarrow>
        fst (EvalAdjustingSchedule h c std im dr mode metric s)
        = Inr (MultifactorSchedule default_factors c 400 (1/2) 20000 100000))
   \<and> (query h mode metric s = [p, q] \<and> length (query h' mode' metric' s') < 2 \<longrightarrow>
        fst (EvalAdjustingSchedule h c std im dr mode metric s)
        = fst (EvalAdjustingSchedule h' c std' im' dr' mode' metric' s'))"
proof -
  have two: "fst (EvalAdjustingSchedule h c std im dr mode metric s)
        = Inr (MultifactorSchedule default_factors c 400 (1/2) 20000 100000)"
    if "query h mode metric s = [p, q]"
  proof -
    from that have a: "query h mode metric s = [p] @ [q]" "[p] \<noteq> []" by simp_all
    show ?thesis
      by (simp add: EvalAdjustingSchedule_long [OF a] walk_short default_schedule_def)
  qed
  have short: "fst (EvalAdjustingSchedule h' c std' im' dr' mode' metric' s')
        = Inr (MultifactorSchedule default_factors c 400 (1/2) 20000 100000)"
    if "length (query h' mode' metric' s') < 2"
    using that by (simp add: EvalAdjustingSchedule_short default_schedule_def)
  from two short EvalAdjustingSchedule_oldest [of h mode metric s p rest h' mode' metric' s' q]
  show ?thesis by simp
qed

theorem oldest_point_not_compared_witness:
  "fst (EvalAdjustingSchedule single_history 1 1 default_improvement_margin 2
          ''eval'' ''metrics/accuracy'' (single_heap [(100, 3/10), (200, 1/2), (300, 1/2)]))
   = fst (EvalAdjustingSchedule single_history 1 1 default_improvement_margin 2
          ''eval'' ''metrics/accuracy'' (single_heap [(100, 9/10), (200, 1/2), (300, 1/2)]))
   \<and> fst (EvalAdjustingSchedule single_history 1 1 default_improvement_margin 2
          ''eval'' ''metrics/accuracy'' (single_heap [(100, 3/10), (200, 1/2)]))
     = Inr (MultifactorSchedule default_factors 1 400 (1/2) 20000 100000)
   \<and> fst (EvalAdjustingSchedule single_history 1 1 default_improvement_margin 2
          ''eval'' ''metrics/accuracy'' (single_heap [(100, 3/10), (200, 1/2)]))
     = fst (EvalAdjustingSchedule single_history 1 20 0 (3/2)
          ''eval'' ''metrics/accuracy'' (single_heap [(100, 3/10)]))"
proof -
  note three = oldest_point_not_compared
    [of single_history "''eval''" "''metrics/accuracy''"
        "single_heap [(100, 3/10), (200, 1/2), (300, 1/2)]" "(100, 3/10)"
        "[(200, 1/2), (300, 1/2)]"
        single_history "''eval''" "''metrics/accuracy''"
        "single_heap [(100, 9/10), (200, 1/2), (300, 1/2)]" "(100, 9/10)"
        1 1 default_improvement_margin 2]
  note two = oldest_point_not_compared
    [of single_history "''eval''" "''metrics/accuracy''"
        "single_heap [(100, 3/10), (200, 1/2)]" "(100, 3/10)" "[(200, 1/2)]"
        single_history "''eval''" "''metrics/accuracy''"
        "single_heap [(100, 3/10)]" "(200, 1/2)"
        1 1 default_improvement_margin 2 20 0 "3/2"]
  from three have a:
    "fst (EvalAdjustingSchedule single_history 1 1 default_improvement_margin 2
          ''eval'' ''metrics/accuracy'' (single_heap [(100, 3/10), (200, 1/2), (300, 1/2)]))
   = fst (EvalAdjustingSchedule single_history 1 1 default_improvement_margin 2
          ''eval'' ''metrics/accuracy'' (single_heap [(100, 9/10), (200, 1/2), (300, 1/2)]))"
    by (simp add: query_single)
  from two have b:
    "fst (EvalAdjustingSchedule single_history 1 1 default_improvement_margin 2
          ''eval'' ''metrics/accuracy'' (single_heap [(100, 3/10), (200, 1/2)]))
     = Inr (MultifactorSchedule default_factors 1 400 (1/2) 20000 100000)"
    by (simp add: query_single)
  have c:
    "fst (EvalAdjustingSchedule single_history 1 1 default_improvement_margin 2
          ''eval'' ''metrics/accuracy'' (single_heap [(100, 3/10), (200, 1/2)]))
     = fst (EvalAdjustingSchedule single_history 1 20 0 (3/2)
          ''eval'' ''metrics/accuracy'' (single_heap [(100, 3/10)]))"
    by (rule two [THEN conjunct2, THEN conjunct2, THEN mp]) (simp add: query_single)
  from a b c show ?thesis by blast
qed



end
